theory Spec2Isabelle
  imports Complex_Main "HOL-Library.Word" "HOL-Library.Sublist"
begin

section \<open>JavaScript strings\<close>

text \<open>
  A JavaScript string is a sequence of UTF-16 code units; \<open>length\<close>, \<open>substring\<close>,
  \<open>indexOf\<close> and indexing all count code units.
\<close>

type_synonym jschar = "16 word"
type_synonym jsstring = "jschar list"

text \<open>A literal of Basic Latin characters, written as an Isabelle string.\<close>

definition js :: "string \<Rightarrow> jsstring" where
  "js s = map (\<lambda>c. of_nat (of_char c)) s"

text \<open>
  The characters matched by the class escape \<^verbatim>\<open>\s\<close> of a regular expression and stripped by
  \<open>String.prototype.trim\<close> (ECMAScript WhiteSpace and LineTerminator): TAB, LF, VT, FF,
  CR, SPACE, NO-BREAK SPACE, U+1680, U+2000..U+200A, U+2028, U+2029, U+202F, U+205F,
  U+3000 and U+FEFF.
\<close>

definition isWhiteSpace :: "jschar \<Rightarrow> bool" where
  "isWhiteSpace c \<longleftrightarrow>
     (0x09 \<le> c \<and> c \<le> 0x0D) \<or> c = 0x20 \<or> c = 0xA0 \<or> c = 0x1680 \<or>
     (0x2000 \<le> c \<and> c \<le> 0x200A) \<or> c = 0x2028 \<or> c = 0x2029 \<or> c = 0x202F \<or>
     c = 0x205F \<or> c = 0x3000 \<or> c = 0xFEFF"

text \<open>
  The character class of the second \<open>replace\<close> in \<open>normalizeText\<close>: U+200B..U+200D
  and U+FEFF.
\<close>

definition isZeroWidth :: "jschar \<Rightarrow> bool" where
  "isZeroWidth c \<longleftrightarrow> (0x200B \<le> c \<and> c \<le> 0x200D) \<or> c = 0xFEFF"

definition trim :: "jsstring \<Rightarrow> jsstring" where
  "trim s = rev (dropWhile isWhiteSpace (rev (dropWhile isWhiteSpace s)))"

text \<open>\<open>s.substring(a, b)\<close>: both indices are clamped to the length and swapped when \<open>a > b\<close>.\<close>

definition substring :: "jsstring \<Rightarrow> nat \<Rightarrow> nat \<Rightarrow> jsstring" where
  "substring s a b = take (max a b - min a b) (drop (min a b) s)"

text \<open>\<open>s.substring(a)\<close>.\<close>

definition substringFrom :: "jsstring \<Rightarrow> nat \<Rightarrow> jsstring" where
  "substringFrom s a = drop a s"

definition startsWith :: "jsstring \<Rightarrow> jsstring \<Rightarrow> bool" where
  "startsWith s t \<longleftrightarrow> prefix t s"

definition endsWith :: "jsstring \<Rightarrow> jsstring \<Rightarrow> bool" where
  "endsWith s t \<longleftrightarrow> suffix t s"

text \<open>\<open>s.indexOf(t)\<close>; \<open>None\<close> is the result \<open>-1\<close>.\<close>

fun indexOf :: "jsstring \<Rightarrow> jsstring \<Rightarrow> nat option" where
  "indexOf [] t = (if t = [] then Some 0 else None)"
| "indexOf (c # cs) t =
     (if prefix t (c # cs) then Some 0 else map_option Suc (indexOf cs t))"

text \<open>\<open>s.indexOf(t, from)\<close>; the start position is clamped to the length.\<close>

definition indexOfFrom :: "jsstring \<Rightarrow> jsstring \<Rightarrow> nat \<Rightarrow> nat option" where
  "indexOfFrom s t from =
     (let k = min from (length s) in map_option (\<lambda>i. i + k) (indexOf (drop k s) t))"

definition includesStr :: "jsstring \<Rightarrow> jsstring \<Rightarrow> bool" where
  "includesStr s t \<longleftrightarrow> indexOf s t \<noteq> None"

section \<open>Document\<close>

text \<open>
  The \<open>className\<close> of an element: a string for an HTML element, an \<open>SVGAnimatedString\<close>
  object (here with its \<open>baseVal\<close>) for an SVG element. The object has no method
  \<open>includes\<close>.
\<close>

datatype className = ClassString jsstring | SVGAnimatedString jsstring

text \<open>
  The document is a tree of elements and text nodes; an element carries its \<open>tagName\<close>,
  its \<open>className\<close> and its child nodes. A node is referred to by its path from the
  document element: the list of child indices leading to it. A path stands for the node as
  long as the document is not changed in between; every method of the source changes the
  document at most once, as its last step.
\<close>

datatype dom = Text jsstring | Element jsstring className "dom list"

type_synonym path = "nat list"

fun nodeAt :: "dom \<Rightarrow> path \<Rightarrow> dom option" where
  "nodeAt n [] = Some n"
| "nodeAt (Text s) (i # is) = None"
| "nodeAt (Element t c kids) (i # is) = (if i < length kids then nodeAt (kids ! i) is else None)"

fun textContent :: "dom \<Rightarrow> jsstring" where
  "textContent (Text s) = s"
| "textContent (Element t c kids) = concat (map textContent kids)"

text \<open>\<open>modifyAt p f d\<close> replaces the node at path \<open>p\<close> of \<open>d\<close> by its image under \<open>f\<close>.\<close>

fun modifyAt :: "path \<Rightarrow> (dom \<Rightarrow> dom) \<Rightarrow> dom \<Rightarrow> dom" where
  "modifyAt [] f n = f n"
| "modifyAt (i # is) f (Text s) = Text s"
| "modifyAt (i # is) f (Element t c kids) =
     (if i < length kids then Element t c (kids[i := modifyAt is f (kids ! i)])
      else Element t c kids)"

text \<open>
  \<open>document.body\<close>: the first child of the \<open>html\<close> document element that is a \<open>body\<close> or
  a \<open>frameset\<close> element; \<open>None\<close> is \<open>null\<close>.
\<close>

fun isBodyElement :: "dom \<Rightarrow> bool" where
  "isBodyElement (Text s) = False"
| "isBodyElement (Element t c kids) = (t = js ''BODY'' \<or> t = js ''FRAMESET'')"

fun findIndex :: "('a \<Rightarrow> bool) \<Rightarrow> 'a list \<Rightarrow> nat option" where
  "findIndex P [] = None"
| "findIndex P (x # xs) = (if P x then Some 0 else map_option Suc (findIndex P xs))"

fun body :: "dom \<Rightarrow> path option" where
  "body (Text s) = None"
| "body (Element t c kids) =
     (if t = js ''HTML'' then map_option (\<lambda>i. [i]) (findIndex isBodyElement kids) else None)"

text \<open>\<open>a.contains(b)\<close>, for the nodes at paths \<open>a\<close> and \<open>b\<close> of one document.\<close>

definition contains :: "path \<Rightarrow> path \<Rightarrow> bool" where
  "contains a b \<longleftrightarrow> prefix a b"

text \<open>
  A text node as a \<open>TreeWalker\<close> with \<open>NodeFilter.SHOW_TEXT\<close> returns it: its place in the
  document, its data (\<open>textContent\<close>; \<open>length\<close> is the data's length) and the
  \<open>tagName\<close> and \<open>className\<close> of its \<open>parentElement\<close>. The walker's root is an element
  and is not returned itself, so every node returned has a parent element.
\<close>

record textNode =
  nodeRef :: path
  nodeText :: jsstring
  parentTag :: jsstring
  parentClass :: className

fun walkChildren :: "path \<Rightarrow> jsstring \<Rightarrow> className \<Rightarrow> nat \<Rightarrow> dom list \<Rightarrow> textNode list" where
  "walkChildren p t c i [] = []"
| "walkChildren p t c i (Text s # ks) =
     \<lparr>nodeRef = p @ [i], nodeText = s, parentTag = t, parentClass = c\<rparr>
       # walkChildren p t c (Suc i) ks"
| "walkChildren p t c i (Element t' c' kids # ks) =
     walkChildren (p @ [i]) t' c' 0 kids @ walkChildren p t c (Suc i) ks"

text \<open>
  The nodes that \<open>createTreeWalker(rootNode, NodeFilter.SHOW_TEXT)\<close> yields through
  \<open>nextNode()\<close>, in document order.
\<close>

definition createTreeWalker :: "dom \<Rightarrow> path \<Rightarrow> textNode list" where
  "createTreeWalker d rootNode =
     (case nodeAt d rootNode of
        Some (Element t c kids) \<Rightarrow> walkChildren rootNode t c 0 kids
      | _ \<Rightarrow> [])"

section \<open>The host environment\<close>

text \<open>
  What the browser supplies and the source only calls:
  \<^item> \<open>String.prototype.toLowerCase\<close> (Unicode default case conversion);
  \<^item> \<open>document.evaluate\<close>, the XPath engine behind \<open>getElementByXPath\<close>: the node an
    address selects in a document, \<open>None\<close> when it selects nothing or evaluation throws;
  \<^item> \<open>rangeThrows d n a b\<close>: the host raises an exception while a range from offset
    \<open>a\<close> to offset \<open>b\<close> of text node \<open>n\<close> of document \<open>d\<close> is built and wrapped. The
    source guards every such sequence with \<open>try\<close>/\<open>catch\<close>.
  They are parameters of the model, so that every theorem holds for whatever the host does.
\<close>

record env =
  toLowerCase :: "jsstring \<Rightarrow> jsstring"
  evaluate :: "jsstring \<Rightarrow> dom \<Rightarrow> path option"
  rangeThrows :: "dom \<Rightarrow> path \<Rightarrow> nat \<Rightarrow> nat \<Rightarrow> bool"

text \<open>Case conversion restricted to Basic Latin: \<open>A\<close>..\<open>Z\<close> become \<open>a\<close>..\<open>z\<close>.\<close>

definition lowerLatin :: "jsstring \<Rightarrow> jsstring" where
  "lowerLatin s = map (\<lambda>c. if 0x41 \<le> c \<and> c \<le> 0x5A then c + 0x20 else c) s"

section \<open>Text normalizer\<close>

text \<open>
  The first \<open>replace\<close> of \<open>normalizeText\<close>: every maximal run of characters of the class
  (white space, or U+3000) becomes one SPACE.
\<close>

function collapseWhiteSpace :: "jsstring \<Rightarrow> jsstring" where
  "collapseWhiteSpace [] = []"
| "collapseWhiteSpace (c # cs) =
     (if isWhiteSpace c \<or> c = 0x3000
      then 0x20 # collapseWhiteSpace (dropWhile (\<lambda>d. isWhiteSpace d \<or> d = 0x3000) cs)
      else c # collapseWhiteSpace cs)"
  by pat_completeness auto
termination
  by (relation "measure length") (auto simp: le_imp_less_Suc length_dropWhile_le)

text \<open>The second \<open>replace\<close>: every zero-width character is deleted.\<close>

definition removeZeroWidth :: "jsstring \<Rightarrow> jsstring" where
  "removeZeroWidth s = filter (\<lambda>c. \<not> isZeroWidth c) s"

definition normalizeText :: "env \<Rightarrow> jsstring \<Rightarrow> jsstring" where
  "normalizeText E text =
     (if text = [] then []
      else trim (removeZeroWidth (collapseWhiteSpace (toLowerCase E text))))"

text \<open>
  \<open>findActualIndex(original, normalizedSearch, normalizedIndex)\<close>. The loop is the pair
  \<open>(i, count)\<close>; \<open>None\<close> is the result \<open>-1\<close>.
\<close>

function findActualIndexLoop :: "env \<Rightarrow> jsstring \<Rightarrow> nat \<Rightarrow> nat \<Rightarrow> nat \<Rightarrow> nat" where
  "findActualIndexLoop E original normalizedIndex i count =
     (if i < length original \<and> count < normalizedIndex
      then (let normalized = normalizeText E [original ! i]
            in findActualIndexLoop E original normalizedIndex (i + 1)
                 (if length normalized > 0 then count + 1 else count))
      else i)"
  by pat_completeness auto
termination
  by (relation "measure (\<lambda>(E, original, normalizedIndex, i, count). length original - i)") auto

definition findActualIndex :: "env \<Rightarrow> jsstring \<Rightarrow> jsstring \<Rightarrow> nat \<Rightarrow> nat option" where
  "findActualIndex E original normalizedSearch normalizedIndex =
     (let i = findActualIndexLoop E original normalizedIndex 0 0
      in if i < length original then Some i else None)"

section \<open>Capture\<close>

text \<open>
  The field \<open>text\<close> of the \<open>clipboardData\<close> that the \<open>copy\<close> listener sends for storage,
  for a selection whose string is \<open>sel\<close>; \<open>None\<close> when the trimmed selection is empty and
  nothing is recorded. The stored text comes back as \<open>originalText\<close> of a highlight request.
  The listener's gates (extension context, incognito mode, blacklist, sensitive content),
  which can only suppress the record, are not modelled.
\<close>

definition truncatedSuffix :: jsstring where
  "truncatedSuffix = js ''... (truncated)''"

definition clipboardText :: "jsstring \<Rightarrow> jsstring option" where
  "clipboardText sel =
     (let copied = trim sel
      in if copied = [] then None
         else Some (if length copied > 10000
                    then substring copied 0 10000 @ truncatedSuffix
                    else copied))"

section \<open>Highlight marks\<close>

definition createHighlightMark :: dom where
  "createHighlightMark = Element (js ''MARK'') (ClassString (js ''smart-clipboard-highlight'')) []"

fun appendChild :: "dom \<Rightarrow> dom \<Rightarrow> dom" where
  "appendChild (Text s) n = Text s"
| "appendChild (Element t c kids) n = Element t c (kids @ [n])"

text \<open>
  \<open>range.surroundContents(mark)\<close> for a range from offset \<open>a\<close> to offset \<open>b\<close> of one text
  node, seen from the node's parent, whose child \<open>i\<close> the node is: the contents of the range
  are extracted, the text node is split at \<open>a\<close>, the mark is inserted between the two
  halves and receives the extracted text (nothing, when the range is collapsed).
\<close>

fun surroundChild :: "nat \<Rightarrow> nat \<Rightarrow> nat \<Rightarrow> dom \<Rightarrow> dom" where
  "surroundChild i a b (Text s) = Text s"
| "surroundChild i a b (Element t c kids) =
     (case kids ! i of
        Text s \<Rightarrow>
          Element t c (take i kids
            @ [Text (take a s),
               (if a < b then appendChild createHighlightMark (Text (substring s a b))
                else createHighlightMark),
               Text (drop b s)]
            @ drop (Suc i) kids)
      | Element t' c' kids' \<Rightarrow> Element t c kids)"

text \<open>
  The sequence \<open>createRange\<close>, \<open>setStart(node, a)\<close>, \<open>setEnd(node, b)\<close>,
  \<open>createHighlightMark\<close>, \<open>surroundContents(mark)\<close> that every strategy runs inside a
  \<open>try\<close>. \<open>None\<close>: an exception was thrown (an offset beyond the node's length is an
  \<open>IndexSizeError\<close>) and the document is unchanged. Otherwise the new document and the
  mark's place in it. An end before the start collapses the range at the end.
\<close>

definition surroundRange :: "env \<Rightarrow> dom \<Rightarrow> path \<Rightarrow> nat \<Rightarrow> nat \<Rightarrow> (dom \<times> path) option" where
  "surroundRange E d node a b =
     (case nodeAt d node of
        Some (Text s) \<Rightarrow>
          if node = [] \<or> length s < a \<or> length s < b \<or> rangeThrows E d node a b then None
          else Some (modifyAt (butlast node) (surroundChild (last node) (min a b) b) d,
                     butlast node @ [Suc (last node)])
      | _ \<Rightarrow> None)"

text \<open>\<open>parent.removeChild(parent.childNodes[j])\<close>.\<close>

fun removeChild :: "nat \<Rightarrow> dom \<Rightarrow> dom" where
  "removeChild j (Text s) = Text s"
| "removeChild j (Element t c kids) = Element t c (take j kids @ drop (Suc j) kids)"

text \<open>\<open>parent.replaceChild(document.createTextNode(child.textContent), child)\<close> for child \<open>j\<close>.\<close>

fun replaceChildByText :: "nat \<Rightarrow> dom \<Rightarrow> dom" where
  "replaceChildByText j (Text s) = Text s"
| "replaceChildByText j (Element t c kids) =
     (if j < length kids then Element t c (kids[j := Text (textContent (kids ! j))])
      else Element t c kids)"

text \<open>
  \<open>Node.normalize()\<close>: in the whole subtree, empty text nodes are removed and adjacent text
  nodes are merged into one.
\<close>

fun mergeTextNodes :: "dom list \<Rightarrow> dom list" where
  "mergeTextNodes [] = []"
| "mergeTextNodes (Text s # Text s' # ks) = mergeTextNodes (Text (s @ s') # ks)"
| "mergeTextNodes (Text s # ks) = (if s = [] then mergeTextNodes ks else Text s # mergeTextNodes ks)"
| "mergeTextNodes (Element t c kids # ks) = Element t c kids # mergeTextNodes ks"

fun normalizeNode :: "dom \<Rightarrow> dom" where
  "normalizeNode (Text s) = Text s"
| "normalizeNode (Element t c kids) = Element t c (mergeTextNodes (map normalizeNode kids))"

text \<open>
  What the inner timer of \<open>scrollToAndRemove\<close> does to the document when it fires: the mark
  is replaced by a text node with the mark's text, and the parent is normalized. A mark
  without a parent is left alone.
\<close>

definition removeMark :: "path \<Rightarrow> dom \<Rightarrow> dom" where
  "removeMark mark d =
     (if mark = [] then d
      else modifyAt (butlast mark) (\<lambda>parent. normalizeNode (replaceChildByText (last mark) parent)) d)"

section \<open>Page state\<close>

text \<open>
  The state a relocation call works on: the document, the number of calls of
  \<open>window.scrollTo({ top: 0 })\<close>, the marks scrolled into view, the marks whose removal
  timer is pending, and (for specification only) the numbers of the methods that
  \<open>highlightText\<close> has invoked, in order.
\<close>

record page =
  document :: dom
  scrollToTopCalls :: nat
  scrolledIntoView :: "path list"
  timers :: "path list"
  trace :: "nat list"

definition scrollToAndRemove :: "path \<Rightarrow> page \<Rightarrow> page" where
  "scrollToAndRemove mark p =
     p\<lparr>scrolledIntoView := scrolledIntoView p @ [mark], timers := timers p @ [mark]\<rparr>"

definition scrollToTop :: "page \<Rightarrow> page" where
  "scrollToTop p = p\<lparr>scrollToTopCalls := scrollToTopCalls p + 1\<rparr>"

text \<open>
  The \<open>selectionInfo\<close> of a highlight request: the record built by \<open>getSelectionContext\<close>
  with the stored text added as \<open>originalText\<close>. A string field that is absent is the empty
  string (the source tests these fields for truthiness only); \<open>offset\<close> is tested against
  \<open>undefined\<close>, which is \<open>None\<close>.
\<close>

record anchor =
  xpath :: jsstring
  offset :: "nat option"
  lengthSel :: nat
  surroundingText :: jsstring
  textBefore :: jsstring
  textAfter :: jsstring
  parentTagName :: jsstring
  parentClassName :: jsstring
  originalText :: jsstring

section \<open>Method 1: XPath positioning\<close>

fun findTextNodeLoop :: "textNode list \<Rightarrow> nat \<Rightarrow> nat \<Rightarrow> textNode option" where
  "findTextNodeLoop [] currentOffset off = None"
| "findTextNodeLoop (node # nodes) currentOffset off =
     (if currentOffset + length (nodeText node) \<ge> off then Some node
      else findTextNodeLoop nodes (currentOffset + length (nodeText node)) off)"

text \<open>\<open>element.firstChild\<close> when it is a text node.\<close>

definition firstChildText :: "dom \<Rightarrow> path \<Rightarrow> textNode option" where
  "firstChildText d element =
     (case nodeAt d element of
        Some (Element t c (Text s # ks)) \<Rightarrow>
          Some \<lparr>nodeRef = element @ [0], nodeText = s, parentTag = t, parentClass = c\<rparr>
      | _ \<Rightarrow> None)"

definition findTextNode :: "dom \<Rightarrow> path \<Rightarrow> nat \<Rightarrow> textNode option" where
  "findTextNode d element off =
     (case findTextNodeLoop (createTreeWalker d element) 0 off of
        Some node \<Rightarrow> Some node
      | None \<Rightarrow> firstChildText d element)"

text \<open>
  The cross-check of \<open>tryXPathHighlight\<close>: \<open>True\<close> when the text found is rejected as a
  mismatch of the original text.
\<close>

definition xpathTextMismatch :: "env \<Rightarrow> jsstring \<Rightarrow> jsstring \<Rightarrow> bool" where
  "xpathTextMismatch E foundText original =
     (length original > 0 \<and>
      (let normalizedFound = normalizeText E foundText;
           normalizedOriginal = normalizeText E original;
           minMatchLength = min (min (length normalizedFound) (length normalizedOriginal)) 30;
           foundPrefix = substring normalizedFound 0 minMatchLength;
           originalPrefix = substring normalizedOriginal 0 minMatchLength
       in minMatchLength \<ge> 5 \<and> foundPrefix \<noteq> originalPrefix))"

text \<open>
  \<open>tryXPathHighlight\<close>. The whole body is inside one \<open>try\<close> whose \<open>catch\<close> returns
  \<open>false\<close>; the only operations that can throw are those of \<open>surroundRange\<close>, and they
  leave the document unchanged when they do.
\<close>

definition tryXPathHighlight :: "env \<Rightarrow> anchor \<Rightarrow> page \<Rightarrow> bool \<times> page" where
  "tryXPathHighlight E selectionInfo p =
     (case evaluate E (xpath selectionInfo) (document p) of
        None \<Rightarrow> (False, p)
      | Some element \<Rightarrow>
     (case offset selectionInfo of
        None \<Rightarrow> (False, p)
      | Some off \<Rightarrow>
     (case findTextNode (document p) element off of
        None \<Rightarrow> (False, p)
      | Some textNode \<Rightarrow>
          (let actualOffset = min off (length (nodeText textNode));
               endOffset = min (actualOffset + lengthSel selectionInfo) (length (nodeText textNode))
           in if actualOffset \<ge> endOffset \<or> endOffset > length (nodeText textNode) then (False, p)
              else (let foundText = substring (nodeText textNode) actualOffset endOffset
                    in if foundText = [] \<or> length (trim foundText) = 0 then (False, p)
                       else if xpathTextMismatch E foundText (originalText selectionInfo)
                       then (False, p)
                       else (case surroundRange E (document p) (nodeRef textNode)
                                     actualOffset endOffset of
                               None \<Rightarrow> (False, p)
                             | Some (d, mark) \<Rightarrow>
                                 if mark = [] \<or> \<not> (case body d of None \<Rightarrow> False
                                                     | Some b \<Rightarrow> contains b mark)
                                 then (False, p\<lparr>document := d\<rparr>)
                                 else if (case nodeAt d mark of
                                            None \<Rightarrow> True
                                          | Some m \<Rightarrow> textContent m = []
                                                       \<or> length (trim (textContent m)) = 0)
                                 then (False, p\<lparr>document :=
                                                 modifyAt (butlast mark) (removeChild (last mark)) d\<rparr>)
                                 else (True, scrollToAndRemove mark (p\<lparr>document := d\<rparr>))))))))"

section \<open>Multi-match scoring\<close>

text \<open>\<open>s.slice(-n)\<close>: the last \<open>n\<close> characters, the whole string when it is shorter.\<close>

definition sliceLast :: "jsstring \<Rightarrow> nat \<Rightarrow> jsstring" where
  "sliceLast s n = drop (length s - n) s"

text \<open>
  An exception of the JavaScript runtime that the modelled code can raise outside every
  \<open>try\<close> of a method.
\<close>

datatype exception = TypeError

text \<open>
  \<open>calculateContextScore(node, matchIndex, selectionInfo)\<close>; \<open>None\<close> is a \<open>selectionInfo\<close>
  that is \<open>null\<close> or \<open>undefined\<close>. The three signals are the three numbered blocks of
  the source. The third calls \<open>parent.className?.includes(...)\<close> when the anchor has a
  parent tag and a parent class: for a parent whose \<open>className\<close> is an object that call
  throws a \<open>TypeError\<close>, and the function has no \<open>try\<close>.
\<close>

definition textBeforeScore :: "env \<Rightarrow> textNode \<Rightarrow> nat \<Rightarrow> anchor \<Rightarrow> nat" where
  "textBeforeScore E node matchIndex selectionInfo =
     (if textBefore selectionInfo \<noteq> [] then
        (let beforeText = substring (nodeText node) 0 matchIndex;
             normalizedBefore = normalizeText E beforeText;
             normalizedExpected = normalizeText E (textBefore selectionInfo)
         in if endsWith normalizedBefore normalizedExpected then 35
            else if length normalizedExpected \<ge> 10
                    \<and> includesStr normalizedBefore (sliceLast normalizedExpected 20) then 20
            else 0)
      else 0)"

definition textAfterScore :: "env \<Rightarrow> textNode \<Rightarrow> nat \<Rightarrow> anchor \<Rightarrow> nat" where
  "textAfterScore E node matchIndex selectionInfo =
     (if textAfter selectionInfo \<noteq> [] then
        (let afterText = substringFrom (nodeText node) (matchIndex + lengthSel selectionInfo);
             normalizedAfter = normalizeText E afterText;
             normalizedExpected = normalizeText E (textAfter selectionInfo)
         in if startsWith normalizedAfter normalizedExpected then 35
            else if length normalizedExpected \<ge> 10
                    \<and> includesStr normalizedAfter (substring normalizedExpected 0 20) then 20
            else 0)
      else 0)"

definition parentScore :: "textNode \<Rightarrow> anchor \<Rightarrow> exception + nat" where
  "parentScore node selectionInfo =
     (if parentTagName selectionInfo \<noteq> [] then
        (let tagPoints = (if parentTag node = parentTagName selectionInfo then 12 else 0)
         in if parentClassName selectionInfo \<noteq> [] then
              (case parentClass node of
                 ClassString c \<Rightarrow>
                   Inr (tagPoints + (if includesStr c (parentClassName selectionInfo) then 8 else 0))
               | SVGAnimatedString baseVal \<Rightarrow> Inl TypeError)
            else Inr tagPoints)
      else Inr 0)"

definition calculateContextScore ::
    "env \<Rightarrow> textNode \<Rightarrow> nat \<Rightarrow> anchor option \<Rightarrow> exception + nat" where
  "calculateContextScore E node matchIndex selectionInfo =
     (case selectionInfo of
        None \<Rightarrow> Inr 50
      | Some info \<Rightarrow>
          (case parentScore node info of
             Inl e \<Rightarrow> Inl e
           | Inr parentPoints \<Rightarrow>
               Inr (textBeforeScore E node matchIndex info + textAfterScore E node matchIndex info
                    + parentPoints + 10)))"

record match =
  matchNode :: textNode
  index :: nat
  score :: nat
  normalizedIndex :: nat

lemma indexOf_bound: "indexOf s t = Some i \<Longrightarrow> i + length t \<le> length s"
proof (induction s arbitrary: i)
  case Nil
  then show ?case by (simp split: if_splits)
next
  case (Cons c cs)
  show ?case
  proof (cases "prefix t (c # cs)")
    case True
    then have "length t \<le> length (c # cs)" by (rule prefix_length_le)
    with True Cons.prems show ?thesis by simp
  next
    case False
    with Cons.prems obtain j where "indexOf cs t = Some j" "i = Suc j" by auto
    with Cons.IH show ?thesis by simp
  qed
qed

lemma indexOfFrom_bound:
  "indexOfFrom s t k = Some i \<Longrightarrow> min k (length s) \<le> i \<and> i + length t \<le> length s"
  by (auto simp: indexOfFrom_def Let_def dest!: indexOf_bound)

lemma nodeMatches_measure:
  "\<not> length t < 3 \<Longrightarrow> indexOfFrom s t k = Some i \<Longrightarrow> length s - Suc i < length s - k"
  using indexOfFrom_bound [of s t k i] by auto

text \<open>
  The inner \<open>while (true)\<close> loop of \<open>findAllMatchesWithScoring\<close> for one node, from
  \<open>searchStart\<close> on; \<open>Inl\<close> is the exception of a score, which ends the loop. The function
  returns before the loop when the search text has fewer than 3 characters; the test is
  repeated here, where it makes the loop terminate.
\<close>

function nodeMatches ::
    "env \<Rightarrow> anchor option \<Rightarrow> jsstring \<Rightarrow> textNode \<Rightarrow> nat \<Rightarrow> exception + match list" where
  "nodeMatches E selectionInfo normalizedSearch node searchStart =
     (if length normalizedSearch < 3 then Inr []
      else (case indexOfFrom (normalizeText E (nodeText node)) normalizedSearch searchStart of
              None \<Rightarrow> Inr []
            | Some i \<Rightarrow>
                (case findActualIndex E (nodeText node) normalizedSearch i of
                   None \<Rightarrow> nodeMatches E selectionInfo normalizedSearch node (i + 1)
                 | Some actualIndex \<Rightarrow>
                     (case calculateContextScore E node actualIndex selectionInfo of
                        Inl e \<Rightarrow> Inl e
                      | Inr sc \<Rightarrow>
                          (case nodeMatches E selectionInfo normalizedSearch node (i + 1) of
                             Inl e \<Rightarrow> Inl e
                           | Inr matches \<Rightarrow>
                               Inr (\<lparr>matchNode = node, index = actualIndex, score = sc,
                                     normalizedIndex = i\<rparr> # matches))))))"
  by pat_completeness auto
termination
  by (relation "measure (\<lambda>(E, selectionInfo, normalizedSearch, node, searchStart).
                    length (normalizeText E (nodeText node)) - searchStart)")
     (auto simp: nodeMatches_measure)

text \<open>The outer loop over the walker's nodes; an exception ends it.\<close>

fun walkMatches ::
    "env \<Rightarrow> anchor option \<Rightarrow> jsstring \<Rightarrow> textNode list \<Rightarrow> exception + match list" where
  "walkMatches E selectionInfo normalizedSearch [] = Inr []"
| "walkMatches E selectionInfo normalizedSearch (node # nodes) =
     (case nodeMatches E selectionInfo normalizedSearch node 0 of
        Inl e \<Rightarrow> Inl e
      | Inr matches \<Rightarrow>
          (case walkMatches E selectionInfo normalizedSearch nodes of
             Inl e \<Rightarrow> Inl e
           | Inr matches' \<Rightarrow> Inr (matches @ matches')))"

text \<open>
  \<open>matches.sort((a, b) => b.score - a.score)\<close>: descending by score; the sort is stable,
  so matches of equal score keep their document order.
\<close>

definition sortByScore :: "match list \<Rightarrow> match list" where
  "sortByScore matches = sort_key (\<lambda>m. - int (score m)) matches"

text \<open>
  The text nodes of \<open>createTreeWalker(document.body, NodeFilter.SHOW_TEXT)\<close>. Without a
  \<open>document.body\<close> the call throws; \<open>highlightText\<close> reaches no strategy then (its wait
  for the page has thrown before), and the model has no node to offer.
\<close>

definition bodyTextNodes :: "dom \<Rightarrow> textNode list" where
  "bodyTextNodes d = (case body d of None \<Rightarrow> [] | Some b \<Rightarrow> createTreeWalker d b)"

definition findAllMatchesWithScoring ::
    "env \<Rightarrow> jsstring \<Rightarrow> anchor option \<Rightarrow> page \<Rightarrow> exception + match list" where
  "findAllMatchesWithScoring E searchText selectionInfo p =
     (let normalizedSearch = normalizeText E searchText
      in if length normalizedSearch < 3 then Inr []
         else (case walkMatches E selectionInfo normalizedSearch (bodyTextNodes (document p)) of
                 Inl e \<Rightarrow> Inl e
               | Inr matches \<Rightarrow> Inr (sortByScore matches)))"

section \<open>Method 2: exact match with scoring\<close>

text \<open>
  What every strategy does inside its \<open>try\<close> with the place it has found: the range from
  offset \<open>a\<close> to offset \<open>b\<close> of the node is wrapped in a new mark, which is handed to
  \<open>scrollToAndRemove\<close>. \<open>None\<close>: an exception was thrown, and nothing has changed.
\<close>

definition highlightRange :: "env \<Rightarrow> textNode \<Rightarrow> nat \<Rightarrow> nat \<Rightarrow> page \<Rightarrow> page option" where
  "highlightRange E node a b p =
     (case surroundRange E (document p) (nodeRef node) a b of
        None \<Rightarrow> None
      | Some (d, mark) \<Rightarrow> Some (scrollToAndRemove mark (p\<lparr>document := d\<rparr>)))"

text \<open>The same with \<open>range.selectNodeContents(node)\<close>: the whole text of the node.\<close>

definition highlightNodeContents :: "env \<Rightarrow> textNode \<Rightarrow> page \<Rightarrow> page option" where
  "highlightNodeContents E node p = highlightRange E node 0 (length (nodeText node)) p"

text \<open>
  The body of the \<open>try\<close> blocks of \<open>highlightByExactMatchWithScoring\<close> for one match:
  the range runs from the match's index over the length of the original text and is cut at
  the end of the node.
\<close>

definition applyMatch :: "env \<Rightarrow> jsstring \<Rightarrow> match \<Rightarrow> page \<Rightarrow> page option" where
  "applyMatch E original m p =
     highlightRange E (matchNode m) (index m)
       (min (index m + length original) (length (nodeText (matchNode m)))) p"

definition minScore :: "jsstring \<Rightarrow> nat" where
  "minScore normalizedSearch = (if length normalizedSearch < 15 then 40 else 20)"

text \<open>
  \<open>highlightByExactMatchWithScoring\<close>. The call of \<open>findAllMatchesWithScoring\<close> comes
  before the \<open>try\<close>: its exception is the exception of the method (\<open>Inl\<close>).
\<close>

definition highlightByExactMatchWithScoring ::
    "env \<Rightarrow> jsstring \<Rightarrow> anchor option \<Rightarrow> page \<Rightarrow> exception + bool \<times> page" where
  "highlightByExactMatchWithScoring E original selectionInfo p =
     (let normalizedSearch = normalizeText E original
      in if length normalizedSearch < 5 then Inr (False, p)
         else (case findAllMatchesWithScoring E original selectionInfo p of
                 Inl e \<Rightarrow> Inl e
               | Inr matches \<Rightarrow>
                   if length matches = 0 then Inr (False, p)
                   else (let bestMatch = matches ! 0
                         in if score bestMatch < minScore normalizedSearch then Inr (False, p)
                            else (case applyMatch E original bestMatch p of
                                    Some p' \<Rightarrow> Inr (True, p')
                                  | None \<Rightarrow>
                                      if length matches > 1
                                         \<and> score (matches ! 1) \<ge> minScore normalizedSearch
                                      then (case applyMatch E original (matches ! 1) p of
                                              Some p' \<Rightarrow> Inr (True, p')
                                            | None \<Rightarrow> Inr (False, p))
                                      else Inr (False, p)))))"

section \<open>Methods 6 and 7: surrounding text, partial match\<close>

text \<open>
  The walker loop shared by \<open>highlightByTextSearch\<close> and \<open>highlightByPartialMatch\<close>: the
  first node whose normalized text includes the snippet and whose wrapping does not throw is
  highlighted whole.
\<close>

fun highlightFirstIncluding :: "env \<Rightarrow> jsstring \<Rightarrow> textNode list \<Rightarrow> page \<Rightarrow> bool \<times> page" where
  "highlightFirstIncluding E snippet [] p = (False, p)"
| "highlightFirstIncluding E snippet (node # nodes) p =
     (if includesStr (normalizeText E (nodeText node)) snippet
      then (case highlightNodeContents E node p of
              Some p' \<Rightarrow> (True, p')
            | None \<Rightarrow> highlightFirstIncluding E snippet nodes p)
      else highlightFirstIncluding E snippet nodes p)"

definition highlightByTextSearch :: "env \<Rightarrow> jsstring \<Rightarrow> page \<Rightarrow> bool \<times> page" where
  "highlightByTextSearch E searchText p =
     (if searchText = [] \<or> length searchText < 10 then (False, p)
      else (let searchSnippet = normalizeText E (substring searchText 0 60)
            in highlightFirstIncluding E searchSnippet (bodyTextNodes (document p)) p))"

fun partialMatchLoop :: "env \<Rightarrow> jsstring list \<Rightarrow> page \<Rightarrow> bool \<times> page" where
  "partialMatchLoop E [] p = (False, p)"
| "partialMatchLoop E (portion # portions) p =
     (let normalizedPortion = normalizeText E portion
      in if length normalizedPortion < 8 then partialMatchLoop E portions p
         else (case highlightFirstIncluding E normalizedPortion (bodyTextNodes (document p)) p of
                 (h, p') \<Rightarrow> if h then (True, p') else partialMatchLoop E portions p'))"

text \<open>
  The indices \<open>length - 20\<close> and \<open>floor(length / 2) - 10\<close> may be negative; \<open>substring\<close>
  takes a negative index as 0, which is what the subtraction of natural numbers gives.
\<close>

definition highlightByPartialMatch :: "env \<Rightarrow> jsstring \<Rightarrow> page \<Rightarrow> bool \<times> page" where
  "highlightByPartialMatch E original p =
     partialMatchLoop E
       [substring original 0 20,
        substringFrom original (length original - 20),
        substring original (length original div 2 - 10) (length original div 2 + 10)] p"

section \<open>Method 3: first-line anchor\<close>

text \<open>\<open>s.split(sep)\<close> for a separator of one character.\<close>

fun split :: "jsstring \<Rightarrow> jschar \<Rightarrow> jsstring list" where
  "split [] sep = [[]]"
| "split (c # cs) sep =
     (if c = sep then [] # split cs sep
      else (case split cs sep of [] \<Rightarrow> [[c]] | l # ls \<Rightarrow> (c # l) # ls))"

fun tryPrefixMatchLoop :: "env \<Rightarrow> jsstring \<Rightarrow> nat \<Rightarrow> textNode list \<Rightarrow> page \<Rightarrow> bool \<times> page" where
  "tryPrefixMatchLoop E searchText highlightLength [] p = (False, p)"
| "tryPrefixMatchLoop E searchText highlightLength (node # nodes) p =
     (case indexOf (normalizeText E (nodeText node)) searchText of
        None \<Rightarrow> tryPrefixMatchLoop E searchText highlightLength nodes p
      | Some i \<Rightarrow>
          (case findActualIndex E (nodeText node) searchText i of
             None \<Rightarrow> tryPrefixMatchLoop E searchText highlightLength nodes p
           | Some actualIndex \<Rightarrow>
               (case highlightRange E node actualIndex
                       (min (actualIndex + highlightLength) (length (nodeText node))) p of
                  Some p' \<Rightarrow> (True, p')
                | None \<Rightarrow>
                    (case highlightNodeContents E node p of
                       Some p' \<Rightarrow> (True, p')
                     | None \<Rightarrow> tryPrefixMatchLoop E searchText highlightLength nodes p))))"

definition tryPrefixMatch :: "env \<Rightarrow> jsstring \<Rightarrow> nat \<Rightarrow> page \<Rightarrow> bool \<times> page" where
  "tryPrefixMatch E searchText highlightLength p =
     tryPrefixMatchLoop E searchText highlightLength (bodyTextNodes (document p)) p"

fun prefixLengthsLoop :: "env \<Rightarrow> jsstring \<Rightarrow> nat list \<Rightarrow> page \<Rightarrow> bool \<times> page" where
  "prefixLengthsLoop E firstLine [] p = (False, p)"
| "prefixLengthsLoop E firstLine (prefixLen # prefixLengths) p =
     (if length firstLine < prefixLen then prefixLengthsLoop E firstLine prefixLengths p
      else (let searchText = normalizeText E (substring firstLine 0 prefixLen)
            in if length searchText < 3 then prefixLengthsLoop E firstLine prefixLengths p
               else (case tryPrefixMatch E searchText (length firstLine) p of
                       (h, p') \<Rightarrow>
                         if h then (True, p')
                         else prefixLengthsLoop E firstLine prefixLengths p')))"

definition highlightByFirstLine :: "env \<Rightarrow> jsstring \<Rightarrow> page \<Rightarrow> bool \<times> page" where
  "highlightByFirstLine E original p =
     (let lines = filter (\<lambda>line. length (trim line) > 0) (split original 0x0A)
      in if length lines = 0 then (False, p)
         else prefixLengthsLoop E (trim (lines ! 0)) [20, 10, 5] p)"

section \<open>Method 4: windowed aggregated search\<close>

text \<open>The loop over the window start; the list is what remains from the start on.\<close>

fun windowLoop :: "env \<Rightarrow> jsstring \<Rightarrow> textNode list \<Rightarrow> page \<Rightarrow> bool \<times> page" where
  "windowLoop E searchText [] p = (False, p)"
| "windowLoop E searchText (node # nodes) p =
     (let windowText = concat (map (\<lambda>n. nodeText n @ [0x20]) (take 15 (node # nodes)))
      in if includesStr (normalizeText E windowText) searchText
         then (case highlightNodeContents E node p of
                 Some p' \<Rightarrow> (True, p')
               | None \<Rightarrow> windowLoop E searchText nodes p)
         else windowLoop E searchText nodes p)"

definition highlightByWindowedSearch :: "env \<Rightarrow> jsstring \<Rightarrow> page \<Rightarrow> bool \<times> page" where
  "highlightByWindowedSearch E original p =
     (let searchText = normalizeText E (substring original 0 20)
      in if length searchText < 10 then (False, p)
         else (let allNodes = filter (\<lambda>node. length (trim (nodeText node)) > 0)
                                     (bodyTextNodes (document p))
               in if length allNodes = 0 then (False, p)
                  else windowLoop E searchText allNodes p))"

section \<open>Method 5: fuzzy match\<close>

text \<open>
  \<open>calculateSimilarity\<close>. The source computes with floating-point numbers; the ratios
  are of two integers up to 30, which the model holds exactly, and the comparisons of the
  source between two such ratios over one window size, and with \<open>0.7\<close>, come out as the
  exact ones.
\<close>

definition windowMatches :: "jsstring \<Rightarrow> jsstring \<Rightarrow> nat \<Rightarrow> nat" where
  "windowMatches window shorter windowSize =
     length (filter (\<lambda>j. window ! j = shorter ! j) [0 ..< min windowSize (length shorter)])"

definition calculateSimilarity :: "jsstring \<Rightarrow> jsstring \<Rightarrow> rat" where
  "calculateSimilarity str1 str2 =
     (let shorter = (if length str1 < length str2 then str1 else str2);
          longer = (if length str1 \<ge> length str2 then str1 else str2)
      in if includesStr longer shorter then 1
         else (let windowSize = min (length shorter) 30
               in fold (\<lambda>i maxMatch.
                          max maxMatch
                            (of_nat (windowMatches (substring longer i (i + windowSize))
                                       shorter windowSize) / of_nat windowSize))
                       [0 ..< length longer - windowSize + 1] 0))"

fun fuzzyLoop :: "env \<Rightarrow> jsstring \<Rightarrow> textNode list \<Rightarrow> textNode option \<Rightarrow> rat
                    \<Rightarrow> textNode option" where
  "fuzzyLoop E searchSnippet [] bestMatch bestScore = bestMatch"
| "fuzzyLoop E searchSnippet (node # nodes) bestMatch bestScore =
     (let normalizedNode = normalizeText E (nodeText node)
      in if length normalizedNode < length searchSnippet
         then fuzzyLoop E searchSnippet nodes bestMatch bestScore
         else (let sc = calculateSimilarity normalizedNode searchSnippet
               in if sc > bestScore \<and> sc > 7 / 10
                  then fuzzyLoop E searchSnippet nodes (Some node) sc
                  else fuzzyLoop E searchSnippet nodes bestMatch bestScore))"

text \<open>\<open>Math.floor(textLength * 0.2)\<close> is \<open>textLength div 5\<close> for every length of a string.\<close>

definition highlightByFuzzyMatch :: "env \<Rightarrow> jsstring \<Rightarrow> page \<Rightarrow> bool \<times> page" where
  "highlightByFuzzyMatch E original p =
     (let textLength = length original;
          searchStart = textLength div 5;
          searchEnd = min (searchStart + 40) textLength;
          searchSnippet = normalizeText E (substring original searchStart searchEnd)
      in if length searchSnippet < 15 then (False, p)
         else (case fuzzyLoop E searchSnippet (bodyTextNodes (document p)) None 0 of
                 None \<Rightarrow> (False, p)
               | Some bestMatch \<Rightarrow>
                   (case highlightNodeContents E bestMatch p of
                      Some p' \<Rightarrow> (True, p')
                    | None \<Rightarrow> (False, p))))"

section \<open>The cascade\<close>

text \<open>
  \<open>highlightText\<close> tries its seven methods in the order of the source text, each behind
  the test \<open>!highlighted && ...\<close>. For the method numbered \<open>k\<close>, \<open>precondition\<close> is the
  second half of that test and \<open>runMethod\<close> the call behind it, \<open>Inl\<close> when the call
  throws; \<open>cascade\<close> runs the methods of a list of numbers in order on the pair of
  \<open>highlighted\<close> and the page, until one of them throws. Only method 2 can throw: in
  the others every operation that can throw is inside a \<open>try\<close>.
\<close>

definition originalTextOf :: "anchor option \<Rightarrow> jsstring" where
  "originalTextOf selectionInfo = (case selectionInfo of None \<Rightarrow> [] | Some a \<Rightarrow> originalText a)"

definition surroundingTextOf :: "anchor option \<Rightarrow> jsstring" where
  "surroundingTextOf selectionInfo =
     (case selectionInfo of None \<Rightarrow> [] | Some a \<Rightarrow> surroundingText a)"

definition precondition :: "anchor option \<Rightarrow> nat \<Rightarrow> bool" where
  "precondition selectionInfo k =
     (if k = 1 then (case selectionInfo of None \<Rightarrow> False | Some a \<Rightarrow> xpath a \<noteq> [])
      else if k = 2 then length (originalTextOf selectionInfo) \<ge> 5
      else if k = 3 then length (originalTextOf selectionInfo) \<ge> 10
      else if k = 4 then length (originalTextOf selectionInfo) \<ge> 15
      else if k = 5 then length (originalTextOf selectionInfo) \<ge> 20
      else if k = 6 then surroundingTextOf selectionInfo \<noteq> []
      else if k = 7 then length (originalTextOf selectionInfo) \<ge> 10
      else False)"

definition runMethod ::
    "env \<Rightarrow> anchor option \<Rightarrow> nat \<Rightarrow> page \<Rightarrow> exception + bool \<times> page" where
  "runMethod E selectionInfo k p =
     (if k = 1 then (case selectionInfo of None \<Rightarrow> Inr (False, p)
                     | Some a \<Rightarrow> Inr (tryXPathHighlight E a p))
      else if k = 2
        then highlightByExactMatchWithScoring E (originalTextOf selectionInfo) selectionInfo p
      else if k = 3 then Inr (highlightByFirstLine E (originalTextOf selectionInfo) p)
      else if k = 4 then Inr (highlightByWindowedSearch E (originalTextOf selectionInfo) p)
      else if k = 5 then Inr (highlightByFuzzyMatch E (originalTextOf selectionInfo) p)
      else if k = 6 then Inr (highlightByTextSearch E (surroundingTextOf selectionInfo) p)
      else if k = 7 then Inr (highlightByPartialMatch E (originalTextOf selectionInfo) p)
      else Inr (False, p))"

definition invoke :: "nat \<Rightarrow> page \<Rightarrow> page" where
  "invoke k p = p\<lparr>trace := trace p @ [k]\<rparr>"

text \<open>
  The result of the cascade: \<open>Inr\<close> of \<open>highlighted\<close> and the page when every method that
  was tried has returned, \<open>Inl\<close> of the exception and the page at that moment when one has
  thrown (a method that throws does so before it changes anything).
\<close>

fun cascade ::
    "env \<Rightarrow> anchor option \<Rightarrow> nat list \<Rightarrow> bool \<times> page \<Rightarrow> exception \<times> page + bool \<times> page" where
  "cascade E selectionInfo [] hp = Inr hp"
| "cascade E selectionInfo (k # ks) (highlighted, p) =
     (if \<not> highlighted \<and> precondition selectionInfo k
      then (case runMethod E selectionInfo k (invoke k p) of
              Inl e \<Rightarrow> Inl (e, invoke k p)
            | Inr hp \<Rightarrow> cascade E selectionInfo ks hp)
      else cascade E selectionInfo ks (highlighted, p))"

text \<open>
  \<open>highlightText\<close>. Everything is inside one \<open>try\<close>, whose \<open>catch\<close> scrolls to the top.
  \<open>waitForPageStable\<close> reads \<open>document.body.scrollHeight\<close>: without a body that throws
  and the \<open>await\<close> throws; the waiting itself is not modelled. An exception of a method
  ends the cascade in the same \<open>catch\<close>: no later method is tried.
\<close>

definition highlightText :: "env \<Rightarrow> anchor option \<Rightarrow> page \<Rightarrow> page" where
  "highlightText E selectionInfo p =
     (case body (document p) of
        None \<Rightarrow> scrollToTop p
      | Some b \<Rightarrow>
          (case cascade E selectionInfo [1, 2, 3, 4, 5, 6, 7] (False, p) of
             Inl (e, p') \<Rightarrow> scrollToTop p'
           | Inr (highlighted, p') \<Rightarrow> if \<not> highlighted then scrollToTop p' else p'))"

section \<open>Examples\<close>

text \<open>
  A host whose case conversion is that of Basic Latin, whose XPath engine is the given
  function and whose range operations never throw.
\<close>

definition exampleHost :: "(jsstring \<Rightarrow> dom \<Rightarrow> path option) \<Rightarrow> env" where
  "exampleHost ev = \<lparr>toLowerCase = lowerLatin, evaluate = ev, rangeThrows = (\<lambda>d n a b. False)\<rparr>"

definition plainHost :: env where
  "plainHost = exampleHost (\<lambda>x d. None)"

text \<open>A page before any relocation call.\<close>

definition freshPage :: "dom \<Rightarrow> page" where
  "freshPage d = \<lparr>document = d, scrollToTopCalls = 0, scrolledIntoView = [], timers = [], trace = []\<rparr>"

text \<open>
  One paragraph with the text \<open>The quick brown fox\<close>, and the anchor of the word \<open>quick\<close>
  in it; \<open>foxHost\<close> resolves the anchor's address to the paragraph.
\<close>

definition foxDocument :: dom where
  "foxDocument =
     Element (js ''HTML'') (ClassString [])
       [Element (js ''HEAD'') (ClassString []) [],
        Element (js ''BODY'') (ClassString []) [Element (js ''P'') (ClassString []) [Text (js ''The quick brown fox'')]]]"

definition foxAnchor :: anchor where
  "foxAnchor = \<lparr>xpath = js ''/html/body/p[1]'', offset = Some 4, lengthSel = 5,
     surroundingText = js ''The quick brown fox'', textBefore = js ''The '',
     textAfter = js '' brown fox'', parentTagName = js ''P'', parentClassName = [],
     originalText = js ''quick''\<rparr>"

definition foxHost :: env where
  "foxHost = exampleHost (\<lambda>x d. if x = js ''/html/body/p[1]'' then Some [1, 0] else None)"

definition foxNode :: textNode where
  "foxNode = \<lparr>nodeRef = [1, 0, 0], nodeText = js ''The quick brown fox'',
                parentTag = js ''P'', parentClass = ClassString []\<rparr>"

definition foxMarked :: dom where
  "foxMarked =
     Element (js ''HTML'') (ClassString [])
       [Element (js ''HEAD'') (ClassString []) [],
        Element (js ''BODY'') (ClassString [])
          [Element (js ''P'') (ClassString [])
             [Text (js ''The ''),
              Element (js ''MARK'') (ClassString (js ''smart-clipboard-highlight'')) [Text (js ''quick'')],
              Text (js '' brown fox'')]]]"




text \<open>
  A page whose body starts with the white space of an indented source, and the surrounding
  text of a selection that starts with sixty spaces.
\<close>

definition indentedDocument :: dom where
  "indentedDocument =
     Element (js ''HTML'') (ClassString [])
       [Element (js ''HEAD'') (ClassString []) [],
        Element (js ''BODY'') (ClassString [])
          [Text [0x0A, 0x20, 0x20], Element (js ''P'') (ClassString []) [Text (js ''hello world'')]]]"

definition indentedSurroundingText :: jsstring where
  "indentedSurroundingText = replicate 60 0x20 @ js ''hello world''"

text \<open>
  A page with a block \<open>main\<close> that a script has appended to the document element, after
  the body, and the anchor of the word \<open>cat\<close> copied from that block; \<open>overlayHost\<close>
  resolves the anchor's address to the block.
\<close>

definition overlayDocument :: dom where
  "overlayDocument =
     Element (js ''HTML'') (ClassString [])
       [Element (js ''HEAD'') (ClassString []) [],
        Element (js ''BODY'') (ClassString []) [Element (js ''P'') (ClassString []) [Text (js ''hello'')]],
        Element (js ''DIV'') (ClassString []) [Text (js ''the cat sat on the mat'')]]"

definition mainXPath :: jsstring where
  "mainXPath = js ''//*[@id='' @ [0x22] @ js ''main'' @ [0x22] @ js '']''"

definition catAnchor :: anchor where
  "catAnchor = \<lparr>xpath = mainXPath, offset = Some 4, lengthSel = 3,
     surroundingText = js ''the cat sat on the mat'', textBefore = js ''the '',
     textAfter = js '' sat on the mat'', parentTagName = js ''DIV'', parentClassName = [],
     originalText = js ''cat''\<rparr>"

definition overlayHost :: env where
  "overlayHost = exampleHost (\<lambda>x d. if x = mainXPath then Some [2] else None)"









section \<open>Evaluation rules\<close>

lemmas string_eval =
  js_def trim_def substring_def substringFrom_def startsWith_def endsWith_def includesStr_def
  indexOfFrom_def isWhiteSpace_def isZeroWidth_def lowerLatin_def removeZeroWidth_def
  normalizeText_def sliceLast_def exampleHost_def plainHost_def

lemmas dom_eval =
  freshPage_def createTreeWalker_def bodyTextNodes_def findTextNode_def firstChildText_def
  surroundRange_def createHighlightMark_def removeMark_def scrollToAndRemove_def scrollToTop_def
  contains_def highlightRange_def highlightNodeContents_def applyMatch_def invoke_def


lemma collapseWhiteSpace_spaces: "0 < n \<Longrightarrow> collapseWhiteSpace (replicate n 0x20) = [0x20]"
  by (cases n) (simp_all add: isWhiteSpace_def dropWhile_eq_Nil_conv)

section \<open>The methods leave the trace alone\<close>


















lemma runMethod_throws:
  "runMethod E info k p = Inl e \<Longrightarrow>
   k = 2 \<and> highlightByExactMatchWithScoring E (originalTextOf info) info p = Inl e"
  by (auto simp: runMethod_def split: if_splits option.splits)

section \<open>The cascade: first success wins\<close>








section \<open>Text normalizer: idempotence\<close>

text \<open>
  C2. \<open>normalizeText\<close> is not idempotent. White space is collapsed before the zero-width
  characters are removed, so the two spaces around a ZERO WIDTH SPACE (U+200B) survive the
  first pass as a double space and are collapsed only by a second pass: for
  \<open>a\<close>, SPACE, U+200B, SPACE, \<open>b\<close> the first pass gives \<open>a\<close>, SPACE, SPACE, \<open>b\<close> and the second
  \<open>a\<close>, SPACE, \<open>b\<close>.
\<close>

theorem normalizeText_not_idempotent:
  "normalizeText plainHost [0x61, 0x20, 0x200B, 0x20, 0x62] = [0x61, 0x20, 0x20, 0x62] \<and>
   normalizeText plainHost (normalizeText plainHost [0x61, 0x20, 0x200B, 0x20, 0x62])
     = [0x61, 0x20, 0x62] \<and>
   normalizeText plainHost (normalizeText plainHost [0x61, 0x20, 0x200B, 0x20, 0x62])
     \<noteq> normalizeText plainHost [0x61, 0x20, 0x200B, 0x20, 0x62]"
  by (simp add: string_eval)

section \<open>Method 1: offsets and cross-check\<close>

text \<open>\<open>tryXPathHighlight\<close> once the address, the offset and the text node are there.\<close>

lemma tryXPathHighlight_resolved:
  assumes "evaluate E (xpath a) (document p) = Some element"
      and "offset a = Some off"
      and "findTextNode (document p) element off = Some node"
      and "ao = min off (length (nodeText node))"
      and "eo = min (ao + lengthSel a) (length (nodeText node))"
  shows "tryXPathHighlight E a p =
     (if ao \<ge> eo \<or> eo > length (nodeText node) then (False, p)
      else if substring (nodeText node) ao eo = []
              \<or> length (trim (substring (nodeText node) ao eo)) = 0 then (False, p)
      else if xpathTextMismatch E (substring (nodeText node) ao eo) (originalText a)
      then (False, p)
      else (case surroundRange E (document p) (nodeRef node) ao eo of
              None \<Rightarrow> (False, p)
            | Some (d, mark) \<Rightarrow>
                if mark = [] \<or> \<not> (case body d of None \<Rightarrow> False | Some b \<Rightarrow> contains b mark)
                then (False, p\<lparr>document := d\<rparr>)
                else if (case nodeAt d mark of
                           None \<Rightarrow> True
                         | Some m \<Rightarrow> textContent m = [] \<or> length (trim (textContent m)) = 0)
                then (False, p\<lparr>document := modifyAt (butlast mark) (removeChild (last mark)) d\<rparr>)
                else (True, scrollToAndRemove mark (p\<lparr>document := d\<rparr>))))"
  unfolding tryXPathHighlight_def assms(1,2,3) option.case Let_def assms(4,5) [symmetric]
  by (rule refl)

text \<open>
  C3. When the anchor's address resolves and a text node is found for its offset, method 1
  works with \<open>actualOffset = min(offset, node.length)\<close> and
  \<open>endOffset = min(actualOffset + length, node.length)\<close>. It declines, leaving the page as
  it was, when \<open>actualOffset >= endOffset\<close>; it declines as well when the original text is
  not empty and the normalized slice and the normalized original text differ in their first
  \<open>n\<close> characters, \<open>n\<close> the least of their two lengths and 30, provided \<open>n\<close> is at least 5.
  When it succeeds, the range it has wrapped is the one from \<open>actualOffset\<close> to
  \<open>endOffset\<close> of that node, and the mark is the one whose removal is scheduled.
\<close>

theorem tryXPathHighlight_offsets:
  assumes "evaluate E (xpath a) (document p) = Some element"
      and "offset a = Some off"
      and "findTextNode (document p) element off = Some node"
  shows "let actualOffset = min off (length (nodeText node));
             endOffset = min (actualOffset + lengthSel a) (length (nodeText node));
             normalizedFound = normalizeText E (substring (nodeText node) actualOffset endOffset);
             normalizedOriginal = normalizeText E (originalText a);
             n = min (min (length normalizedFound) (length normalizedOriginal)) 30
         in (actualOffset \<ge> endOffset \<longrightarrow> tryXPathHighlight E a p = (False, p)) \<and>
            (originalText a \<noteq> [] \<and> n \<ge> 5 \<and> take n normalizedFound \<noteq> take n normalizedOriginal
               \<longrightarrow> tryXPathHighlight E a p = (False, p)) \<and>
            (fst (tryXPathHighlight E a p)
               \<longrightarrow> (\<exists>mark. surroundRange E (document p) (nodeRef node) actualOffset endOffset
                              = Some (document (snd (tryXPathHighlight E a p)), mark)
                           \<and> timers (snd (tryXPathHighlight E a p)) = timers p @ [mark]))"
proof -
  define ao where "ao = min off (length (nodeText node))"
  define eo where "eo = min (ao + lengthSel a) (length (nodeText node))"
  define nf where "nf = normalizeText E (substring (nodeText node) ao eo)"
  define no where "no = normalizeText E (originalText a)"
  define n where "n = min (min (length nf) (length no)) 30"
  note unf = tryXPathHighlight_resolved [OF assms ao_def eo_def]
  have 1: "tryXPathHighlight E a p = (False, p)" if "ao \<ge> eo"
    using that by (simp add: unf)
  have 2: "tryXPathHighlight E a p = (False, p)"
    if "originalText a \<noteq> [] \<and> n \<ge> 5 \<and> take n nf \<noteq> take n no"
  proof -
    from that have "xpathTextMismatch E (substring (nodeText node) ao eo) (originalText a)"
      by (simp add: xpathTextMismatch_def Let_def substring_def n_def nf_def no_def)
    then show ?thesis by (simp add: unf)
  qed
  have 3: "\<exists>mark. surroundRange E (document p) (nodeRef node) ao eo
                 = Some (document (snd (tryXPathHighlight E a p)), mark)
               \<and> timers (snd (tryXPathHighlight E a p)) = timers p @ [mark]"
    if ok: "fst (tryXPathHighlight E a p)"
  proof (cases "surroundRange E (document p) (nodeRef node) ao eo")
    case None
    with ok show ?thesis by (simp add: unf split: if_splits)
  next
    case (Some dm)
    obtain d mark where dm: "dm = (d, mark)" by (cases dm)
    with ok Some show ?thesis
      by (simp add: unf scrollToAndRemove_def split: if_splits)
  qed
  from 1 2 3 show ?thesis
    unfolding Let_def ao_def eo_def nf_def no_def n_def by blast
qed

text \<open>
  Instances on the paragraph \<open>The quick brown fox\<close>: an offset of 25 gives the empty
  range from 19 to 19 and is declined; the original text \<open>quiet\<close> disagrees with the slice
  \<open>quick\<close> and is declined; the anchor of \<open>quick\<close> succeeds and wraps offsets 4 to 9.
\<close>

theorem tryXPathHighlight_offsets_witness:
  "tryXPathHighlight foxHost (foxAnchor\<lparr>offset := Some 25\<rparr>) (freshPage foxDocument)
     = (False, freshPage foxDocument) \<and>
   tryXPathHighlight foxHost (foxAnchor\<lparr>originalText := js ''quiet''\<rparr>) (freshPage foxDocument)
     = (False, freshPage foxDocument) \<and>
   fst (tryXPathHighlight foxHost foxAnchor (freshPage foxDocument)) \<and>
   surroundRange foxHost foxDocument [1, 0, 0] 4 9
     = Some (document (snd (tryXPathHighlight foxHost foxAnchor (freshPage foxDocument))),
             [1, 0, 1])"
proof -
  let ?p = "freshPage foxDocument"
  let ?late = "foxAnchor\<lparr>offset := Some 25\<rparr>"
  let ?other = "foxAnchor\<lparr>originalText := js ''quiet''\<rparr>"
  have ev: "evaluate foxHost (xpath a) (document ?p) = Some [1, 0]"
    if "xpath a = js ''/html/body/p[1]''" for a
    using that by (simp add: foxHost_def exampleHost_def)
  have x: "xpath ?late = js ''/html/body/p[1]''" "xpath ?other = js ''/html/body/p[1]''"
    "xpath foxAnchor = js ''/html/body/p[1]''"
    by (simp_all add: foxAnchor_def)
  have o: "offset ?late = Some 25" "offset ?other = Some 4" "offset foxAnchor = Some 4"
    by (simp_all add: foxAnchor_def)
  have n25: "findTextNode (document ?p) [1, 0] 25 = Some foxNode"
    by (simp add: foxNode_def foxDocument_def dom_eval js_def)
  have n4: "findTextNode (document ?p) [1, 0] 4 = Some foxNode"
    by (simp add: foxNode_def foxDocument_def dom_eval js_def)
  have len: "length (nodeText foxNode) = 19"
    by (simp add: foxNode_def js_def)
  have late: "min 25 (length (nodeText foxNode)) = 19"
    "min (19 + lengthSel ?late) (length (nodeText foxNode)) = 19"
    by (simp_all add: len)
  have range: "min 4 (length (nodeText foxNode)) = 4"
    "min (4 + lengthSel ?other) (length (nodeText foxNode)) = 9"
    "min (4 + lengthSel foxAnchor) (length (nodeText foxNode)) = 9"
    by (simp_all add: len foxAnchor_def)
  have found: "normalizeText foxHost (substring (nodeText foxNode) 4 9) = js ''quick''"
    by (simp add: foxNode_def foxHost_def string_eval)
  have orig: "originalText ?other = js ''quiet''"
    "normalizeText foxHost (js ''quiet'') = js ''quiet''"
    by (simp_all add: foxHost_def string_eval)
  note i1 = tryXPathHighlight_offsets [OF ev [OF x(1)] o(1) n25, unfolded Let_def late]
  note i2 = tryXPathHighlight_offsets [OF ev [OF x(2)] o(2) n4, unfolded Let_def range found orig]
  note i3 = tryXPathHighlight_offsets [OF ev [OF x(3)] o(3) n4, unfolded Let_def range]
  from i1 have 1: "tryXPathHighlight foxHost ?late ?p = (False, ?p)"
    by simp
  have "js ''quiet'' \<noteq> [] \<and> 5 \<le> min (min (length (js ''quick'')) (length (js ''quiet''))) 30
        \<and> take (min (min (length (js ''quick'')) (length (js ''quiet''))) 30) (js ''quick'')
            \<noteq> take (min (min (length (js ''quick'')) (length (js ''quiet''))) 30) (js ''quiet'')"
    by (simp add: js_def)
  with i2 have 2: "tryXPathHighlight foxHost ?other ?p = (False, ?p)"
    by blast
  have 3: "fst (tryXPathHighlight foxHost foxAnchor ?p)"
    by (simp add: tryXPathHighlight_def xpathTextMismatch_def foxHost_def
          foxAnchor_def foxDocument_def dom_eval string_eval Let_def)
  with i3 obtain mark where
    m: "surroundRange foxHost (document ?p) (nodeRef foxNode) 4 9
          = Some (document (snd (tryXPathHighlight foxHost foxAnchor ?p)), mark)"
    by blast
  then have "mark = [1, 0, 1]"
    by (auto simp: surroundRange_def foxNode_def freshPage_def split: option.splits dom.splits if_splits)
  with m have 4: "surroundRange foxHost foxDocument [1, 0, 0] 4 9
           = Some (document (snd (tryXPathHighlight foxHost foxAnchor ?p)), [1, 0, 1])"
    by (simp add: foxNode_def freshPage_def)
  from 1 2 3 4 show ?thesis by simp
qed

section \<open>Method 2: threshold and retry\<close>






section \<open>Scorer: a context match raises the score\<close>





section \<open>Validation after wrapping\<close>

text \<open>
  C6. Only \<open>tryXPathHighlight\<close> looks at the mark after wrapping; the other methods
  return \<open>true\<close> as soon as \<open>surroundContents\<close> has not thrown. \<open>highlightByTextSearch\<close>
  with a surrounding text whose first sixty characters are white space searches for the
  empty snippet, which every node includes: it wraps the first text node of the body, here
  a line break and two spaces, and reports success for a mark without visible text.
\<close>

theorem highlightByTextSearch_marks_white_space:
  "fst (highlightByTextSearch plainHost indentedSurroundingText (freshPage indentedDocument)) \<and>
   nodeAt (document (snd (highlightByTextSearch plainHost indentedSurroundingText
                            (freshPage indentedDocument)))) [1, 1]
     = Some (Element (js ''MARK'') (ClassString (js ''smart-clipboard-highlight'')) [Text [0x0A, 0x20, 0x20]]) \<and>
   trim [0x0A, 0x20, 0x20] = []"
  by (simp add: highlightByTextSearch_def indentedSurroundingText_def indentedDocument_def
        dom_eval string_eval Let_def collapseWhiteSpace_spaces)

section \<open>Capture: the stored text\<close>

text \<open>
  C7, as stated, fails: a selection of 10001 characters is stored as its first 10000
  characters followed by the 15 characters of the truncation notice, 10015 characters in all.
\<close>

theorem clipboardText_longer_than_10000:
  "clipboardText (replicate 10001 0x61) = Some (replicate 10000 0x61 @ truncatedSuffix) \<and>
   length (replicate 10000 (0x61 :: jschar) @ truncatedSuffix) = 10015 \<and>
   replicate 10000 (0x61 :: jschar) @ truncatedSuffix \<noteq> substring (replicate 10001 0x61) 0 10000"
  by (simp add: clipboardText_def trim_def isWhiteSpace_def substring_def truncatedSuffix_def js_def)

text \<open>
  C7, amended. The stored text is the trimmed selection when that has at most 10000
  characters; otherwise it is the first 10000 characters of the trimmed selection followed
  by the truncation notice. Its length is at most 10015.
\<close>

theorem clipboardText_truncated:
  assumes "clipboardText sel = Some t"
  shows "(length (trim sel) \<le> 10000 \<longrightarrow> t = trim sel) \<and>
         (length (trim sel) > 10000 \<longrightarrow> t = take 10000 (trim sel) @ js ''... (truncated)'') \<and>
         take 10000 t = take 10000 (trim sel) \<and>
         length t \<le> 10015"
  using assms
  by (auto simp: clipboardText_def Let_def substring_def truncatedSuffix_def js_def
           split: if_splits)

theorem clipboardText_truncated_witness:
  "clipboardText (js ''  quick  '') = Some (js ''quick'') \<and>
   js ''quick'' = trim (js ''  quick  '') \<and> length (js ''quick'') \<le> 10015"
proof -
  have h: "clipboardText (js ''  quick  '') = Some (js ''quick'')"
    by (simp add: clipboardText_def trim_def isWhiteSpace_def js_def)
  show ?thesis
    using h clipboardText_truncated [OF h] by (simp add: trim_def isWhiteSpace_def js_def)
qed

section \<open>Exhaustion\<close>

text \<open>
  C8. When every method declines, \<open>highlightText\<close> scrolls to the top once, but a mark may
  have been created and left behind: \<open>tryXPathHighlight\<close> returns \<open>false\<close> without removing
  the mark when the mark is not inside \<open>document.body\<close>. Here the address resolves to a
  block outside the body; method 1 wraps the word, finds the mark outside the body and
  declines; methods 2 to 5 and 7 are skipped for so short a text and method 6 finds nothing
  in the body; the call scrolls to the top, and the mark stays in the document with no timer
  to remove it.
\<close>

theorem highlightText_leaves_mark_on_exhaustion:
  "highlightText overlayHost (Some catAnchor) (freshPage overlayDocument)
   = \<lparr>document =
        Element (js ''HTML'') (ClassString [])
          [Element (js ''HEAD'') (ClassString []) [],
           Element (js ''BODY'') (ClassString []) [Element (js ''P'') (ClassString []) [Text (js ''hello'')]],
           Element (js ''DIV'') (ClassString [])
             [Text (js ''the ''),
              Element (js ''MARK'') (ClassString (js ''smart-clipboard-highlight'')) [Text (js ''cat'')],
              Text (js '' sat on the mat'')]],
      scrollToTopCalls = 1, scrolledIntoView = [], timers = [], trace = [1, 6]\<rparr>"
  by (simp add: highlightText_def runMethod_def precondition_def originalTextOf_def
        surroundingTextOf_def tryXPathHighlight_def xpathTextMismatch_def highlightByTextSearch_def
        overlayHost_def catAnchor_def overlayDocument_def mainXPath_def dom_eval string_eval
        Let_def)

section \<open>Unwrapping restores the text\<close>

lemma mergeTextNodes_text:
  "concat (map textContent (mergeTextNodes ks)) = concat (map textContent ks)"
  by (induction ks rule: mergeTextNodes.induct) auto

lemma textContent_normalizeNode: "textContent (normalizeNode n) = textContent n"
proof (induction n)
  case (Text s)
  show ?case by simp
next
  case (Element t c kids)
  then have "map textContent (map normalizeNode kids) = map textContent kids"
    by simp
  then show ?case
    by (simp only: normalizeNode.simps textContent.simps mergeTextNodes_text)
qed

lemma mergeTextNodes_join:
  "mergeTextNodes (xs @ Text u # Text v # ys) = mergeTextNodes (xs @ Text (u @ v) # ys)"
  by (induction xs rule: mergeTextNodes.induct) simp_all

lemma nodeAt_modifyAt:
  "nodeAt d q = Some n \<Longrightarrow> nodeAt (modifyAt q f d) q = Some (f n)"
proof (induction q arbitrary: d)
  case Nil
  then show ?case by simp
next
  case (Cons i q)
  then show ?case by (cases d) (auto split: if_splits)
qed

lemma modifyAt_modifyAt:
  "modifyAt q g (modifyAt q f d) = modifyAt q (\<lambda>n. g (f n)) d"
proof (induction q arbitrary: d)
  case Nil
  show ?case by simp
next
  case (Cons i q)
  then show ?case by (cases d) auto
qed

lemma textContent_modifyAt:
  "nodeAt d q = Some n \<Longrightarrow> textContent (f n) = textContent n
   \<Longrightarrow> textContent (modifyAt q f d) = textContent d"
proof (induction q arbitrary: d)
  case Nil
  then show ?case by simp
next
  case (Cons i q)
  show ?case
  proof (cases d)
    case (Text s)
    then show ?thesis by simp
  next
    case (Element t c kids)
    with Cons.prems have i: "i < length kids" and at: "nodeAt (kids ! i) q = Some n"
      by (auto split: if_splits)
    have "textContent (modifyAt q f (kids ! i)) = textContent (kids ! i)"
      using Cons.IH [OF at Cons.prems(2)] .
    then have "map textContent (kids[i := modifyAt q f (kids ! i)]) = map textContent kids"
      by (simp add: map_update list_update_same_conv i)
    with Element i show ?thesis by simp
  qed
qed

lemma nodeAt_parent:
  "nodeAt d node = Some (Text s) \<Longrightarrow> node \<noteq> []
   \<Longrightarrow> \<exists>t c kids. nodeAt d (butlast node) = Some (Element t c kids)
                  \<and> last node < length kids \<and> kids ! last node = Text s"
proof (induction node arbitrary: d)
  case Nil
  then show ?case by simp
next
  case (Cons i q)
  show ?case
  proof (cases d)
    case (Text x)
    with Cons.prems show ?thesis by simp
  next
    case (Element t c kids)
    with Cons.prems have i: "i < length kids" and at: "nodeAt (kids ! i) q = Some (Text s)"
      by (auto split: if_splits)
    show ?thesis
    proof (cases "q = []")
      case True
      with Element i at show ?thesis by simp
    next
      case False
      from Cons.IH [OF at False] Element i False show ?thesis by simp
    qed
  qed
qed

lemma unwrap_child:
  assumes "i < length kids" and "kids ! i = Text s" and "a \<le> b"
  shows "normalizeNode (replaceChildByText (Suc i) (surroundChild i a b (Element t c kids)))
         = normalizeNode (Element t c kids)"
proof -
  let ?N = "map normalizeNode"
  have s: "take a s @ substring s a b @ drop b s = s"
    using assms(3)
    by (simp add: substring_def max_def min_def)
       (metis append_take_drop_id drop_drop le_add_diff_inverse2)
  have kids: "kids = take i kids @ Text s # drop (Suc i) kids"
    using assms(1,2) by (metis id_take_nth_drop)
  have "replaceChildByText (Suc i) (surroundChild i a b (Element t c kids))
        = Element t c (take i kids @ [Text (take a s), Text (substring s a b), Text (drop b s)]
                        @ drop (Suc i) kids)"
    using assms
    by (cases "a < b")
       (simp_all add: createHighlightMark_def substring_def nth_append list_update_append)
  then have "normalizeNode (replaceChildByText (Suc i) (surroundChild i a b (Element t c kids)))
        = Element t c (mergeTextNodes (?N (take i kids) @ Text (take a s) # Text (substring s a b)
                         # Text (drop b s) # ?N (drop (Suc i) kids)))"
    by simp
  also have "\<dots> = Element t c (mergeTextNodes (?N (take i kids) @ Text (take a s @ substring s a b)
                         # Text (drop b s) # ?N (drop (Suc i) kids)))"
    by (simp only: mergeTextNodes_join)
  also have "\<dots> = Element t c (mergeTextNodes (?N (take i kids)
                         @ Text ((take a s @ substring s a b) @ drop b s) # ?N (drop (Suc i) kids)))"
    by (simp only: mergeTextNodes_join)
  also have "\<dots> = Element t c (mergeTextNodes (?N (take i kids @ Text s # drop (Suc i) kids)))"
    using s by simp
  also have "\<dots> = normalizeNode (Element t c kids)"
    using kids by simp
  finally show ?thesis .
qed

text \<open>
  C9. For every range that has been wrapped: when the removal timer fires, the parent of the
  mark becomes the normalization of the parent as it was before the mark was created, so
  the mark has been replaced by text and merged with the text around it; the parent's text
  content, and that of the whole document, are what they were before the wrapping.
\<close>

theorem unwrap_restores_text:
  assumes "surroundRange E d node a b = Some (d', mark)"
  shows "\<exists>parent. nodeAt d (butlast node) = Some parent \<and>
                  butlast mark = butlast node \<and>
                  nodeAt (removeMark mark d') (butlast mark) = Some (normalizeNode parent) \<and>
                  textContent (normalizeNode parent) = textContent parent \<and>
                  textContent (removeMark mark d') = textContent d"
proof -
  from assms obtain s where at: "nodeAt d node = Some (Text s)" and ne: "node \<noteq> []"
    and d': "d' = modifyAt (butlast node) (surroundChild (last node) (min a b) b) d"
    and mark: "mark = butlast node @ [Suc (last node)]"
    by (auto simp: surroundRange_def split: option.splits dom.splits if_splits)
  from nodeAt_parent [OF at ne] obtain t c kids where
    parent: "nodeAt d (butlast node) = Some (Element t c kids)"
    and i: "last node < length kids" and k: "kids ! last node = Text s"
    by blast
  let ?f = "\<lambda>n. normalizeNode (replaceChildByText (Suc (last node))
                                   (surroundChild (last node) (min a b) b n))"
  have un: "?f (Element t c kids) = normalizeNode (Element t c kids)"
    by (rule unwrap_child [OF i k]) simp
  have rm: "removeMark mark d' = modifyAt (butlast node) ?f d"
    by (simp add: removeMark_def mark d' modifyAt_modifyAt)
  have bl: "butlast mark = butlast node"
    by (simp add: mark)
  have "nodeAt (modifyAt (butlast node) ?f d) (butlast node) = Some (?f (Element t c kids))"
    by (rule nodeAt_modifyAt [OF parent])
  then have 1: "nodeAt (removeMark mark d') (butlast mark) = Some (normalizeNode (Element t c kids))"
    by (simp only: rm bl un)
  have 2: "textContent (removeMark mark d') = textContent d"
    unfolding rm
    by (rule textContent_modifyAt [OF parent]) (simp only: un textContent_normalizeNode)
  from parent bl 1 2 textContent_normalizeNode [of "Element t c kids"] show ?thesis
    by blast
qed

text \<open>An instance: wrapping \<open>quick\<close> and unwrapping it gives back the document.\<close>

theorem unwrap_restores_text_witness:
  "surroundRange plainHost foxDocument [1, 0, 0] 4 9 = Some (foxMarked, [1, 0, 1]) \<and>
   removeMark [1, 0, 1] foxMarked = foxDocument \<and>
   textContent (removeMark [1, 0, 1] foxMarked) = textContent foxDocument"
proof -
  have w: "surroundRange plainHost foxDocument [1, 0, 0] 4 9 = Some (foxMarked, [1, 0, 1])"
    by (simp add: foxDocument_def foxMarked_def dom_eval string_eval)
  have r: "removeMark [1, 0, 1] foxMarked = foxDocument"
    by (simp add: foxDocument_def foxMarked_def dom_eval string_eval)
  from unwrap_restores_text [OF w] w r show ?thesis by blast
qed

section \<open>Mapping normalized positions back\<close>

text \<open>
  C10. \<open>findActualIndex\<close> counts the characters of the original whose own normalization
  is not empty. A space normalizes to the empty string (it is trimmed), so spaces are
  never counted, although each run of them is one character of the normalized text. In
  \<open>a b c\<close> the text \<open>b\<close> is at index 2 of the normalized text and at index 2 of the
  original; the function returns 3, the space after \<open>b\<close>. In \<open>a b\<close> it returns \<open>-1\<close>
  although \<open>b\<close> is there.
\<close>

theorem findActualIndex_wrong_position:
  "indexOf (normalizeText plainHost (js ''a b c'')) (js ''b'') = Some 2 \<and>
   findActualIndex plainHost (js ''a b c'') (js ''b'') 2 = Some 3 \<and>
   \<not> startsWith (normalizeText plainHost (substringFrom (js ''a b c'') 3)) (js ''b'') \<and>
   indexOf (normalizeText plainHost (js ''a b'')) (js ''b'') = Some 2 \<and>
   findActualIndex plainHost (js ''a b'') (js ''b'') 2 = None"
  by (simp add: string_eval findActualIndex_def)

end
